theory Spec2Isabelle
  imports Main
begin

section \<open>The books API server: data model\<close>

text \<open>
  The backend is one Express program with five routes over a single collection of
  books. Every route has two branches: the in-memory branch, taken when
  \<open>useMockData\<close> is set, works on the array \<open>mockBooks\<close>; the other branch sends one
  statement to the PostgreSQL pool. The handlers are embedded as functions of the mode
  flag, of the pool (a function from the statement to its outcome: the rows, or the
  message of the exception it throws) and of the array, returning the response and,
  for the handlers that write, the array afterwards. Logging is left out. A request
  reaches a handler with the object that \<open>express.json()\<close> leaves in \<open>req.body\<close>; what
  the middleware rejects before the handler runs is not part of the model.
\<close>

subsection \<open>JavaScript values\<close>

text \<open>
  A request body is parsed JSON, so a field of it is any JSON value, or \<open>undefined\<close>
  when the key is absent: \<open>None\<close> stands for \<open>undefined\<close>. Numbers are restricted to
  the integers; the handlers only test a number of the body for being zero and hand
  it on. Strings are lists of characters with code points below 256.
\<close>

datatype json =
    JNull
  | JBool bool
  | JNum int
  | JStr string
  | JArr "json list"
  | JObj "(string \<times> json) list"

type_synonym jsval = "json option"

text \<open>JavaScript's \<open>ToBoolean\<close>: what \<open>!x\<close> and \<open>x || y\<close> test.\<close>

fun truthy :: "jsval \<Rightarrow> bool" where
  "truthy None = False"
| "truthy (Some JNull) = False"
| "truthy (Some (JBool b)) = b"
| "truthy (Some (JNum n)) = (n \<noteq> 0)"
| "truthy (Some (JStr s)) = (s \<noteq> [])"
| "truthy (Some (JArr xs)) = True"
| "truthy (Some (JObj kvs)) = True"

text \<open>The expression \<open>x || ''\<close>.\<close>

definition or_empty :: "jsval \<Rightarrow> jsval" where
  "or_empty x = (if truthy x then x else Some (JStr []))"

subsection \<open>Books, request bodies, responses\<close>

text \<open>
  \<open>fields\<close> is what the handlers destructure from \<open>req.body\<close>; a book of the array
  has the same five fields and its \<open>id\<close> (called \<open>book_id\<close> here, \<open>id\<close> being the
  identity function of HOL). Identifiers are JavaScript numbers, taken as unbounded
  integers: the model is exact as long as they stay below \<open>2^53\<close>.
\<close>

record fields =
  title :: jsval
  author :: jsval
  category :: jsval
  photo :: jsval
  pdf :: jsval

record book = fields +
  book_id :: int

type_synonym row = "(string \<times> json) list"

datatype payload =
    Books "book list"
  | Book book
  | Rows "row list"
  | Row row
  | Message string
  | Error string

datatype response = Response (status: nat) (payload: payload)

text \<open>
  The five statements of the source, each with its parameters in the order of the
  source. The parameter that comes from \<open>parseInt\<close> is \<open>None\<close> when it is \<open>NaN\<close>.
\<close>

datatype query =
    SelectAllOrderById
  | SelectById "int option"
  | InsertBook jsval jsval jsval jsval jsval
  | UpdateBook jsval jsval jsval jsval jsval "int option"
  | DeleteById "int option"

text \<open>\<open>pool.query\<close>: the rows of the result, or \<open>Inl\<close> the message of the error thrown.\<close>

type_synonym pool = "query \<Rightarrow> string + row list"

subsection \<open>The seeded array\<close>

definition mockBooks :: "book list" where
  "mockBooks =
    [\<lparr>title = Some (JStr ''Clean Code''), author = Some (JStr ''Robert Martin''),
      category = Some (JStr ''Technology''), photo = Some (JStr []), pdf = Some (JStr []),
      book_id = 1\<rparr>,
     \<lparr>title = Some (JStr ''Sapiens''), author = Some (JStr ''Yuval Harari''),
      category = Some (JStr ''History''), photo = Some (JStr []), pdf = Some (JStr []),
      book_id = 2\<rparr>,
     \<lparr>title = Some (JStr ''1984''), author = Some (JStr ''George Orwell''),
      category = Some (JStr ''Fiction''), photo = Some (JStr []), pdf = Some (JStr []),
      book_id = 3\<rparr>,
     \<lparr>title = Some (JStr ''The Art of War''), author = Some (JStr ''Sun Tzu''),
      category = Some (JStr ''Philosophy''), photo = Some (JStr []), pdf = Some (JStr []),
      book_id = 4\<rparr>]"

subsection \<open>\<open>parseInt\<close> without a radix\<close>

text \<open>
  \<open>parseInt\<close> skips leading white space, reads a sign, takes the prefix \<open>0x\<close> or \<open>0X\<close>
  as radix 16 and otherwise radix 10, and reads the longest run of digits of that
  radix; with no digit the result is \<open>NaN\<close>. Everything after the digits is ignored.
  \<open>-0\<close> is \<open>0\<close>: the two are equal under \<open>===\<close>. The white space is the one with
  code points below 256, and the value is exact (a numeral beyond \<open>2^53\<close> is rounded
  by JavaScript).
\<close>

definition isWhiteSpace :: "char \<Rightarrow> bool" where
  "isWhiteSpace c \<longleftrightarrow> of_char c \<in> {9, 10, 11, 12, 13, 32, 160 :: nat}"

definition digitValue :: "char \<Rightarrow> nat option" where
  "digitValue c =
    (let n = (of_char c :: nat) in
     if 48 \<le> n \<and> n \<le> 57 then Some (n - 48)
     else if 97 \<le> n \<and> n \<le> 122 then Some (n - 87)
     else if 65 \<le> n \<and> n \<le> 90 then Some (n - 55)
     else None)"

definition isDigit :: "nat \<Rightarrow> char \<Rightarrow> bool" where
  "isDigit R c = (case digitValue c of None \<Rightarrow> False | Some d \<Rightarrow> d < R)"

definition digitsValue :: "nat \<Rightarrow> string \<Rightarrow> nat" where
  "digitsValue R Z = foldl (\<lambda>a c. a * R + (case digitValue c of None \<Rightarrow> 0 | Some d \<Rightarrow> d)) 0 Z"

definition stripSign :: "string \<Rightarrow> int \<times> string" where
  "stripSign S =
    (case S of
       [] \<Rightarrow> (1, [])
     | c # r \<Rightarrow> if c = CHR ''-'' then (- 1, r) else if c = CHR ''+'' then (1, r) else (1, S))"

definition stripPrefix :: "string \<Rightarrow> nat \<times> string" where
  "stripPrefix S =
    (case S of
       a # b # r \<Rightarrow>
         if a = CHR ''0'' \<and> (b = CHR ''x'' \<or> b = CHR ''X'') then (16, r) else (10, S)
     | _ \<Rightarrow> (10, S))"

definition parseInt :: "string \<Rightarrow> int option" where
  "parseInt inputString =
    (let (sign, S) = stripSign (dropWhile isWhiteSpace inputString);
         (R, S') = stripPrefix S;
         Z = takeWhile (isDigit R) S'
     in if Z = [] then None else Some (sign * int (digitsValue R Z)))"

section \<open>The handlers\<close>

text \<open>\<open>b.id === id\<close>, with \<open>id\<close> the result of \<open>parseInt\<close>: \<open>NaN\<close> equals nothing.\<close>

definition id_eq :: "int option \<Rightarrow> book \<Rightarrow> bool" where
  "id_eq i b \<longleftrightarrow> Some (book_id b) = i"

text \<open>\<open>Array.prototype.findIndex\<close>, with \<open>None\<close> for \<open>-1\<close>; \<open>find\<close> is the one of HOL.\<close>

fun findIndex :: "('a \<Rightarrow> bool) \<Rightarrow> 'a list \<Rightarrow> nat option" where
  "findIndex P [] = None"
| "findIndex P (x # xs) = (if P x then Some 0 else map_option Suc (findIndex P xs))"

text \<open>\<open>xs.splice(i, 1)\<close>: what is left in the array.\<close>

definition splice1 :: "nat \<Rightarrow> 'a list \<Rightarrow> 'a list" where
  "splice1 i xs = take i xs @ drop (Suc i) xs"

text \<open>\<open>Math.max(...mockBooks.map(b => b.id), 0) + 1\<close>.\<close>

definition next_id :: "book list \<Rightarrow> int" where
  "next_id bs = fold max (map book_id bs) 0 + 1"

text \<open>
  The message of the \<open>TypeError\<close> raised by \<open>result.rows[0].title\<close> when the INSERT
  returned no row; the wording is the engine's.
\<close>

definition undefined_title :: string where
  "undefined_title = ''Cannot read properties of undefined (reading 'title')''"

text \<open>GET /books\<close>

definition get_books :: "bool \<Rightarrow> pool \<Rightarrow> book list \<Rightarrow> response" where
  "get_books useMockData pool_query bs =
    (if useMockData then Response 200 (Books bs)
     else case pool_query SelectAllOrderById of
            Inl err \<Rightarrow> Response 500 (Error err)
          | Inr rows \<Rightarrow> Response 200 (Rows rows))"

text \<open>GET /books/:id\<close>

definition get_book :: "bool \<Rightarrow> pool \<Rightarrow> string \<Rightarrow> book list \<Rightarrow> response" where
  "get_book useMockData pool_query param bs =
    (let i = parseInt param in
     if useMockData then
       (case find (id_eq i) bs of
          None \<Rightarrow> Response 404 (Message ''Book not found'')
        | Some b \<Rightarrow> Response 200 (Book b))
     else
       (case pool_query (SelectById i) of
          Inl err \<Rightarrow> Response 500 (Error err)
        | Inr [] \<Rightarrow> Response 404 (Message ''Book not found'')
        | Inr (r # rs) \<Rightarrow> Response 200 (Row r)))"

text \<open>POST /books\<close>

definition post_books :: "bool \<Rightarrow> pool \<Rightarrow> fields \<Rightarrow> book list \<Rightarrow> response \<times> book list" where
  "post_books useMockData pool_query body bs =
    (if \<not> truthy (title body) \<or> \<not> truthy (author body) then
       (Response 400 (Error ''Title and author are required''), bs)
     else if useMockData then
       (let newBook = \<lparr>title = title body, author = author body,
                       category = or_empty (category body), photo = or_empty (photo body),
                       pdf = or_empty (pdf body), book_id = next_id bs\<rparr>
        in (Response 201 (Book newBook), bs @ [newBook]))
     else
       (case pool_query (InsertBook (title body) (author body) (category body)
                           (photo body) (pdf body)) of
          Inl err \<Rightarrow> (Response 500 (Error err), bs)
        | Inr [] \<Rightarrow> (Response 500 (Error undefined_title), bs)
        | Inr (r # rs) \<Rightarrow> (Response 201 (Row r), bs)))"

text \<open>PUT /books/:id\<close>

definition put_book :: "bool \<Rightarrow> pool \<Rightarrow> string \<Rightarrow> fields \<Rightarrow> book list \<Rightarrow> response \<times> book list" where
  "put_book useMockData pool_query param body bs =
    (let i = parseInt param in
     if useMockData then
       (case findIndex (id_eq i) bs of
          None \<Rightarrow> (Response 404 (Message ''Book not found''), bs)
        | Some bookIndex \<Rightarrow>
            (let b = (bs ! bookIndex)\<lparr>title := title body, author := author body,
                       category := category body, photo := photo body, pdf := pdf body\<rparr>
             in (Response 200 (Book b), bs[bookIndex := b])))
     else
       (case pool_query (UpdateBook (title body) (author body) (category body)
                           (photo body) (pdf body) i) of
          Inl err \<Rightarrow> (Response 500 (Error err), bs)
        | Inr [] \<Rightarrow> (Response 404 (Message ''Book not found''), bs)
        | Inr (r # rs) \<Rightarrow> (Response 200 (Row r), bs)))"

text \<open>DELETE /books/:id\<close>

definition delete_book :: "bool \<Rightarrow> pool \<Rightarrow> string \<Rightarrow> book list \<Rightarrow> response \<times> book list" where
  "delete_book useMockData pool_query param bs =
    (let i = parseInt param in
     if useMockData then
       (case findIndex (id_eq i) bs of
          None \<Rightarrow> (Response 404 (Message ''Book not found''), bs)
        | Some bookIndex \<Rightarrow>
            (Response 200 (Message ''Book deleted successfully''), splice1 bookIndex bs))
     else
       (case pool_query (DeleteById i) of
          Inl err \<Rightarrow> (Response 500 (Error err), bs)
        | Inr [] \<Rightarrow> (Response 404 (Message ''Book not found''), bs)
        | Inr (r # rs) \<Rightarrow> (Response 200 (Message ''Book deleted successfully''), bs)))"

subsection \<open>The states of the in-memory store\<close>

text \<open>
  The array starts as \<open>mockBooks\<close> and is changed by the three writing handlers only,
  whatever the request.
\<close>

inductive reachable :: "book list \<Rightarrow> bool" where
  seeded: "reachable mockBooks"
| after_post: "reachable bs \<Longrightarrow> reachable (snd (post_books True pool_query body bs))"
| after_put: "reachable bs \<Longrightarrow> reachable (snd (put_book True pool_query param body bs))"
| after_delete: "reachable bs \<Longrightarrow> reachable (snd (delete_book True pool_query param bs))"

text \<open>A pool whose every statement fails, and one that never finds a row.\<close>

definition failing_pool :: pool where
  "failing_pool q = Inl ''invalid input syntax for type integer''"

definition empty_pool :: pool where
  "empty_pool q = Inr []"

text \<open>
  A store with no row whose \<open>id\<close> column is an integer, as the specification has it:
  it refuses a statement whose \<open>id\<close> parameter is \<open>NaN\<close>, and finds no row otherwise.
\<close>

definition integer_pool :: pool where
  "integer_pool q =
    (case q of
       SelectById None \<Rightarrow> Inl ''invalid input syntax for type integer: NaN''
     | UpdateBook t a c ph pd None \<Rightarrow> Inl ''invalid input syntax for type integer: NaN''
     | DeleteById None \<Rightarrow> Inl ''invalid input syntax for type integer: NaN''
     | _ \<Rightarrow> Inr [])"

text \<open>A store that answers every statement with one and the same row.\<close>

definition dune_row :: row where
  "dune_row = [(''id'', JNum 5), (''title'', JStr ''Dune''), (''author'', JStr ''Herbert'')]"

definition dune_pool :: pool where
  "dune_pool q = Inr [dune_row]"

subsection \<open>Properties of the store, and sample requests\<close>

text \<open>The identifiers of the array increase strictly from left to right.\<close>

definition ascending :: "book list \<Rightarrow> bool" where
  "ascending bs \<longleftrightarrow> sorted_wrt (<) (map book_id bs)"

definition positive_ids :: "book list \<Rightarrow> bool" where
  "positive_ids bs \<longleftrightarrow> (\<forall>b\<in>set bs. 1 \<le> book_id b)"

text \<open>Every record has a title and an author that pass the test of POST.\<close>

definition titled :: "book list \<Rightarrow> bool" where
  "titled bs \<longleftrightarrow> (\<forall>b\<in>set bs. truthy (title b) \<and> truthy (author b))"

text \<open>
  The words of the specification for a field of a request: it is missing or empty,
  and it is a string when it is there.
\<close>

definition missing_or_empty :: "jsval \<Rightarrow> bool" where
  "missing_or_empty x \<longleftrightarrow> x = None \<or> x = Some (JStr [])"

definition string_or_missing :: "jsval \<Rightarrow> bool" where
  "string_or_missing x \<longleftrightarrow> (case x of None \<Rightarrow> True | Some (JStr s) \<Rightarrow> True | Some _ \<Rightarrow> False)"

text \<open>The request bodies of the scenarios of the specification, and two more.\<close>

definition dune :: fields where
  "dune = \<lparr>title = Some (JStr ''Dune''), author = Some (JStr ''Herbert''),
            category = None, photo = None, pdf = None\<rparr>"

definition dune2 :: fields where
  "dune2 = \<lparr>title = Some (JStr ''Dune 2''), author = Some (JStr ''Herbert''),
             category = None, photo = None, pdf = None\<rparr>"

definition empty_title :: fields where
  "empty_title = \<lparr>title = Some (JStr []), author = Some (JStr ''X''),
                    category = None, photo = None, pdf = None\<rparr>"

definition false_title :: fields where
  "false_title = \<lparr>title = Some (JBool False), author = Some (JStr ''X''),
                    category = None, photo = None, pdf = None\<rparr>"


definition no_fields :: fields where
  "no_fields = \<lparr>title = None, author = None, category = None, photo = None, pdf = None\<rparr>"

text \<open>The array after POST of \<open>dune\<close>, and after DELETE /books/2 following it.\<close>

definition with_dune :: "book list" where
  "with_dune = snd (post_books True failing_pool dune mockBooks)"

definition without_2 :: "book list" where
  "without_2 = snd (delete_book True failing_pool ''2'' with_dune)"

subsection \<open>The path of a request for one record\<close>

text \<open>
  The client builds the path of GET, PUT and DELETE as \<open>`/books/${id}`\<close> from the
  number it holds: the parameter of the route is the decimal numeral of the
  identifier, with a minus sign when it is negative.
\<close>

fun digits :: "nat \<Rightarrow> string" where
  "digits n =
    (if n < 10 then [char_of (48 + n)] else digits (n div 10) @ [char_of (48 + n mod 10)])"

declare digits.simps [simp del]

definition toString :: "int \<Rightarrow> string" where
  "toString n = (if n < 0 then CHR ''-'' # digits (nat (- n)) else digits (nat n))"


section \<open>Lemmas on the handlers\<close>

subsection \<open>Searching the array\<close>

lemma findIndex_None: "findIndex P xs = None \<longleftrightarrow> (\<forall>x\<in>set xs. \<not> P x)"
  by (induction xs) auto

lemma findIndex_Some:
  "findIndex P xs = Some i \<Longrightarrow> i < length xs \<and> P (xs ! i) \<and> (\<forall>j<i. \<not> P (xs ! j))"
proof (induction xs arbitrary: i)
  case Nil
  then show ?case by simp
next
  case (Cons x xs)
  show ?case
  proof (cases "P x")
    case True
    with Cons.prems show ?thesis by simp
  next
    case False
    with Cons.prems obtain k where k: "findIndex P xs = Some k" "i = Suc k"
      by auto
    from Cons.IH [OF k(1)] False k(2) show ?thesis
      by (auto simp: less_Suc_eq_0_disj)
  qed
qed

subsection \<open>The next identifier\<close>

lemma fold_max_ge: "a \<le> fold max xs (a::int)"
proof (induction xs arbitrary: a)
  case Nil
  then show ?case by simp
next
  case (Cons y ys)
  have "a \<le> max y a" by simp
  also have "\<dots> \<le> fold max ys (max y a)" by (rule Cons.IH)
  finally show ?case by simp
qed

lemma fold_max_mem: "x \<in> set xs \<Longrightarrow> x \<le> fold max xs (a::int)"
proof (induction xs arbitrary: a)
  case Nil
  then show ?case by simp
next
  case (Cons y ys)
  then show ?case
    using fold_max_ge [of "max y a" ys] by auto
qed

lemma next_id_gt: "b \<in> set bs \<Longrightarrow> book_id b < next_id bs"
  using fold_max_mem [of "book_id b" "map book_id bs" 0] by (simp add: next_id_def)

lemma next_id_pos: "1 \<le> next_id bs"
  using fold_max_ge [of 0 "map book_id bs"] by (simp add: next_id_def)

lemma next_id_Max: "next_id bs = Max (insert 0 (book_id ` set bs)) + 1"
  using Max.set_eq_fold [of 0 "map book_id bs"] by (simp add: next_id_def)

lemma findIndex_SomeE:
  assumes "\<exists>x\<in>set xs. P x"
  obtains i where "findIndex P xs = Some i"
  using assms findIndex_None [of P xs] by (cases "findIndex P xs") auto

subsection \<open>The in-memory branches, one case at a time\<close>

lemma post_books_fallback:
  "post_books True pq body bs =
    (if truthy (title body) \<and> truthy (author body) then
       (Response 201 (Book \<lparr>title = title body, author = author body,
          category = or_empty (category body), photo = or_empty (photo body),
          pdf = or_empty (pdf body), book_id = next_id bs\<rparr>),
        bs @ [\<lparr>title = title body, author = author body,
          category = or_empty (category body), photo = or_empty (photo body),
          pdf = or_empty (pdf body), book_id = next_id bs\<rparr>])
     else (Response 400 (Error ''Title and author are required''), bs))"
  by (simp add: post_books_def Let_def)

lemma put_book_fallback_None:
  "findIndex (id_eq (parseInt param)) bs = None \<Longrightarrow>
   put_book True pq param body bs = (Response 404 (Message ''Book not found''), bs)"
  by (simp add: put_book_def)

lemma put_book_fallback_Some:
  "findIndex (id_eq (parseInt param)) bs = Some i \<Longrightarrow>
   put_book True pq param body bs =
     (Response 200 (Book ((bs ! i)\<lparr>title := title body, author := author body,
        category := category body, photo := photo body, pdf := pdf body\<rparr>)),
      bs[i := (bs ! i)\<lparr>title := title body, author := author body,
        category := category body, photo := photo body, pdf := pdf body\<rparr>])"
  by (simp add: put_book_def Let_def)

lemma delete_book_fallback_None:
  "findIndex (id_eq (parseInt param)) bs = None \<Longrightarrow>
   delete_book True pq param bs = (Response 404 (Message ''Book not found''), bs)"
  by (simp add: delete_book_def)

lemma delete_book_fallback_Some:
  "findIndex (id_eq (parseInt param)) bs = Some i \<Longrightarrow>
   delete_book True pq param bs =
     (Response 200 (Message ''Book deleted successfully''), splice1 i bs)"
  by (simp add: delete_book_def)

subsection \<open>The relational branches leave the array alone\<close>

lemma delete_book_relational_store: "snd (delete_book False pool_query param bs) = bs"
  by (simp add: delete_book_def split: sum.splits list.splits)

lemma post_books_relational_store: "snd (post_books False pool_query body bs) = bs"
  by (simp add: post_books_def split: sum.splits list.splits)

lemma put_book_relational_store: "snd (put_book False pool_query param body bs) = bs"
  by (simp add: put_book_def split: sum.splits list.splits)

subsection \<open>What the writing handlers preserve\<close>

lemma map_book_id_update:
  "i < length bs \<Longrightarrow>
   map book_id (bs[i := (bs ! i)\<lparr>title := t, author := a, category := c, photo := ph, pdf := pd\<rparr>])
     = map book_id bs"
  by (simp add: map_update list_update_same_conv)

lemma put_book_ids: "map book_id (snd (put_book True pq param body bs)) = map book_id bs"
proof (cases "findIndex (id_eq (parseInt param)) bs")
  case None
  then show ?thesis by (simp add: put_book_fallback_None)
next
  case (Some i)
  then have "i < length bs" by (simp add: findIndex_Some)
  with Some show ?thesis by (simp add: put_book_fallback_Some map_book_id_update)
qed

lemma sorted_wrt_splice1: "sorted_wrt R xs \<Longrightarrow> sorted_wrt R (splice1 i xs)"
proof -
  assume s: "sorted_wrt R xs"
  have "sorted_wrt R (take i xs @ drop (Suc i) xs)"
  proof (cases "i < length xs")
    case True
    then have "xs = take i xs @ xs ! i # drop (Suc i) xs"
      by (rule id_take_nth_drop)
    with s have "sorted_wrt R (take i xs @ xs ! i # drop (Suc i) xs)" by simp
    then show ?thesis by (auto simp: sorted_wrt_append)
  next
    case False
    with s show ?thesis by simp
  qed
  then show ?thesis by (simp add: splice1_def)
qed

lemma set_splice1: "set (splice1 i xs) \<subseteq> set xs"
  by (auto simp: splice1_def dest: in_set_takeD in_set_dropD)

lemma ascending_post: "ascending bs \<Longrightarrow> ascending (snd (post_books True pq body bs))"
  by (auto simp: ascending_def post_books_fallback sorted_wrt_append next_id_gt)

lemma ascending_put: "ascending bs \<Longrightarrow> ascending (snd (put_book True pq param body bs))"
  by (simp add: ascending_def put_book_ids)

lemma ascending_delete: "ascending bs \<Longrightarrow> ascending (snd (delete_book True pq param bs))"
proof (cases "findIndex (id_eq (parseInt param)) bs")
  case None
  assume "ascending bs"
  with None show ?thesis by (simp add: delete_book_fallback_None)
next
  case (Some i)
  assume "ascending bs"
  then have "sorted_wrt (\<lambda>a b. book_id a < book_id b) (splice1 i bs)"
    by (simp add: ascending_def sorted_wrt_map sorted_wrt_splice1)
  with Some show ?thesis
    by (simp add: delete_book_fallback_Some ascending_def sorted_wrt_map)
qed

lemma ascending_mockBooks: "ascending mockBooks"
  by (simp add: ascending_def mockBooks_def)

lemma reachable_ascending: "reachable bs \<Longrightarrow> ascending bs"
  by (induction rule: reachable.induct)
     (simp_all add: ascending_mockBooks ascending_post ascending_put ascending_delete)

lemma positive_post: "positive_ids bs \<Longrightarrow> positive_ids (snd (post_books True pq body bs))"
  by (auto simp: positive_ids_def post_books_fallback next_id_pos)

lemma positive_put: "positive_ids bs \<Longrightarrow> positive_ids (snd (put_book True pq param body bs))"
proof -
  assume "positive_ids bs"
  then have "\<forall>n\<in>set (map book_id bs). 1 \<le> n" by (simp add: positive_ids_def)
  then have "\<forall>n\<in>set (map book_id (snd (put_book True pq param body bs))). 1 \<le> n"
    by (simp only: put_book_ids)
  then show ?thesis by (simp add: positive_ids_def)
qed

lemma positive_delete: "positive_ids bs \<Longrightarrow> positive_ids (snd (delete_book True pq param bs))"
proof (cases "findIndex (id_eq (parseInt param)) bs")
  case None
  assume "positive_ids bs"
  with None show ?thesis by (simp add: delete_book_fallback_None)
next
  case (Some i)
  assume "positive_ids bs"
  with Some show ?thesis
    using set_splice1 [of i bs] by (auto simp: delete_book_fallback_Some positive_ids_def)
qed

lemma reachable_positive: "reachable bs \<Longrightarrow> positive_ids bs"
proof (induction rule: reachable.induct)
  case seeded
  show ?case by (simp add: positive_ids_def mockBooks_def)
qed (simp_all add: positive_post positive_put positive_delete)


lemma next_id_reachable:
  assumes "positive_ids bs"
  shows "next_id bs = (if bs = [] then 0 else Max (book_id ` set bs)) + 1"
proof (cases "bs = []")
  case True
  then show ?thesis by (simp add: next_id_def)
next
  case False
  then obtain b where b: "b \<in> set bs" by (cases bs) auto
  with assms have "1 \<le> book_id b" by (simp add: positive_ids_def)
  moreover from b have "book_id b \<le> Max (book_id ` set bs)" by simp
  ultimately have "0 \<le> Max (book_id ` set bs)" by linarith
  with False have "Max (insert 0 (book_id ` set bs)) = Max (book_id ` set bs)"
    by (simp add: max_def)
  with False show ?thesis by (simp add: next_id_Max)
qed


section \<open>Properties of the handlers\<close>

subsection \<open>Listing\<close>

lemma without_2_ids: "map book_id without_2 = [1, 3, 4, 5]"
  by code_simp

lemma reachable_with_dune: "reachable with_dune"
  unfolding with_dune_def by (intro reachable.intros)

lemma reachable_without_2: "reachable without_2"
  unfolding without_2_def by (intro reachable.intros reachable_with_dune)

lemma truthy_dune: "truthy (title dune) \<and> truthy (author dune)"
  by (simp add: dune_def)

text \<open>
  Claim C2. In every state that the in-memory store can reach, GET /books answers 200
  with the whole array, and the array is in strictly ascending order of \<open>id\<close>: the
  handler does not sort, the order is an invariant of the three writing handlers. On
  the empty array the answer is the empty list, with status 200. In a fresh process
  the answer is the four seeded records, with the identifiers 1, 2, 3, 4 in this order.
\<close>

theorem get_books_ascending:
  "(reachable bs \<longrightarrow>
      get_books True pool_query bs = Response 200 (Books bs) \<and>
      sorted_wrt (<) (map book_id bs)) \<and>
   get_books True pool_query [] = Response 200 (Books []) \<and>
   get_books True pool_query mockBooks = Response 200 (Books mockBooks) \<and>
   map book_id mockBooks = [1, 2, 3, 4]"
proof -
  have "reachable bs \<Longrightarrow> sorted_wrt (<) (map book_id bs)"
    using reachable_ascending [of bs] by (simp add: ascending_def)
  moreover have "map book_id mockBooks = [1, 2, 3, 4]"
    by (simp add: mockBooks_def)
  ultimately show ?thesis by (simp add: get_books_def)
qed

theorem get_books_ascending_witness:
  "reachable without_2 \<and>
   get_books True failing_pool without_2 = Response 200 (Books without_2) \<and>
   sorted_wrt (<) (map book_id without_2) \<and>
   map book_id without_2 = [1, 3, 4, 5]"
  using get_books_ascending [of without_2 failing_pool] reachable_without_2 without_2_ids
  by blast

subsection \<open>The identifier of a new record\<close>

text \<open>
  Claim C3. In the in-memory mode, a POST that passes validation appends a record whose
  \<open>id\<close> is the largest \<open>id\<close> of the array (0 for the empty array) plus one. It is
  therefore larger than every \<open>id\<close> of the array: an identifier freed by a DELETE is
  not given out again while a record with that or a higher \<open>id\<close> is there. From the
  four seeded records the next \<open>id\<close> is 5.
\<close>

theorem post_books_next_id:
  assumes "reachable bs" and "truthy (title body)" and "truthy (author body)"
  shows "\<exists>newBook.
      post_books True pool_query body bs = (Response 201 (Book newBook), bs @ [newBook]) \<and>
      book_id newBook = (if bs = [] then 0 else Max (book_id ` set bs)) + 1 \<and>
      (\<forall>b\<in>set bs. book_id b < book_id newBook) \<and>
      (\<forall>gap. (\<exists>b\<in>set bs. gap \<le> book_id b) \<longrightarrow> book_id newBook \<noteq> gap) \<and>
      (bs = mockBooks \<longrightarrow> book_id newBook = 5)"
proof -
  let ?nb = "\<lparr>title = title body, author = author body,
      category = or_empty (category body), photo = or_empty (photo body),
      pdf = or_empty (pdf body), book_id = next_id bs\<rparr>"
  have 1: "post_books True pool_query body bs = (Response 201 (Book ?nb), bs @ [?nb])"
    using assms(2,3) by (simp add: post_books_fallback)
  have 2: "book_id ?nb = (if bs = [] then 0 else Max (book_id ` set bs)) + 1"
    using next_id_reachable [OF reachable_positive [OF assms(1)]] by simp
  have 3: "\<forall>b\<in>set bs. book_id b < book_id ?nb"
    by (simp add: next_id_gt)
  have 4: "\<forall>gap. (\<exists>b\<in>set bs. gap \<le> book_id b) \<longrightarrow> book_id ?nb \<noteq> gap"
    using 3 by fastforce
  have 5: "bs = mockBooks \<longrightarrow> book_id ?nb = 5"
    by (simp add: next_id_def mockBooks_def)
  from 1 2 3 4 5 show ?thesis by blast
qed


theorem post_books_next_id_witness:
  "reachable without_2 \<and> truthy (title dune) \<and> truthy (author dune) \<and>
   (\<exists>newBook.
      post_books True failing_pool dune without_2
        = (Response 201 (Book newBook), without_2 @ [newBook]) \<and>
      book_id newBook = (if without_2 = [] then 0 else Max (book_id ` set without_2)) + 1 \<and>
      (\<forall>b\<in>set without_2. book_id b < book_id newBook) \<and>
      (\<forall>gap. (\<exists>b\<in>set without_2. gap \<le> book_id b) \<longrightarrow> book_id newBook \<noteq> gap) \<and>
      (without_2 = mockBooks \<longrightarrow> book_id newBook = 5))"
  using post_books_next_id [of without_2 dune failing_pool] reachable_without_2 truthy_dune
  by blast

subsection \<open>Validation on POST\<close>

lemma post_books_rejects:
  "\<not> truthy (title body) \<or> \<not> truthy (author body) \<Longrightarrow>
   post_books useMockData pool_query body bs
     = (Response 400 (Error ''Title and author are required''), bs)"
  by (auto simp: post_books_def)

lemma post_books_relational:
  "truthy (title body) \<Longrightarrow> truthy (author body) \<Longrightarrow>
   post_books False pool_query body bs =
     (case pool_query (InsertBook (title body) (author body) (category body)
                         (photo body) (pdf body)) of
        Inl err \<Rightarrow> (Response 500 (Error err), bs)
      | Inr [] \<Rightarrow> (Response 500 (Error undefined_title), bs)
      | Inr (r # rs) \<Rightarrow> (Response 201 (Row r), bs))"
  by (simp add: post_books_def)

lemma post_books_accepts_status:
  "truthy (title body) \<Longrightarrow> truthy (author body) \<Longrightarrow>
   status (fst (post_books useMockData pool_query body bs)) \<noteq> 400"
  by (cases useMockData)
     (auto simp: post_books_fallback post_books_relational split: sum.splits list.splits)

lemma falsy_string: "string_or_missing x \<Longrightarrow> \<not> truthy x \<longleftrightarrow> missing_or_empty x"
  by (cases x rule: truthy.cases) (simp_all add: string_or_missing_def missing_or_empty_def)

text \<open>
  Claim C1, as stated, fails: the test of the handler is JavaScript's \<open>!title\<close>, which
  rejects every falsy value. A title that is \<open>false\<close> is there and is not empty, the
  author is a string that is not empty, and the answer is 400, in both modes.
\<close>

theorem post_books_counterexample:
  "status (fst (post_books True failing_pool false_title mockBooks)) = 400 \<and>
   status (fst (post_books False failing_pool false_title mockBooks)) = 400 \<and>
   title false_title = Some (JBool False) \<and>
   author false_title = Some (JStr ''X'') \<and>
   \<not> missing_or_empty (title false_title) \<and>
   \<not> missing_or_empty (author false_title)"
  by (simp add: post_books_def false_title_def missing_or_empty_def)

text \<open>
  Claim C1, amended. For every request body, in both modes and whatever the store
  holds, POST /books answers 400 exactly when \<open>title\<close> or \<open>author\<close> is falsy (absent,
  \<open>null\<close>, \<open>false\<close>, 0 or the empty string), and the array is then left as it was; for a
  title and an author that are strings or absent this is: exactly when one of them is
  missing or empty. The test comes before the branch on the mode. When both are truthy,
  the in-memory mode appends a new record and answers 201 with it; the relational mode
  sends one INSERT and answers 201 with the row it returns (and, as every handler does,
  500 when the statement fails).
\<close>

theorem post_books_validation:
  "(status (fst (post_books useMockData pool_query body bs)) = 400
      \<longleftrightarrow> \<not> truthy (title body) \<or> \<not> truthy (author body)) \<and>
   (\<not> truthy (title body) \<or> \<not> truthy (author body) \<longrightarrow>
      post_books useMockData pool_query body bs
        = (Response 400 (Error ''Title and author are required''), bs)) \<and>
   (string_or_missing (title body) \<and> string_or_missing (author body) \<longrightarrow>
      (status (fst (post_books useMockData pool_query body bs)) = 400
        \<longleftrightarrow> missing_or_empty (title body) \<or> missing_or_empty (author body))) \<and>
   (truthy (title body) \<and> truthy (author body) \<longrightarrow>
      (\<exists>newBook.
         post_books True pool_query body bs = (Response 201 (Book newBook), bs @ [newBook]) \<and>
         title newBook = title body \<and> author newBook = author body) \<and>
      post_books False pool_query body bs =
        (case pool_query (InsertBook (title body) (author body) (category body)
                            (photo body) (pdf body)) of
           Inl err \<Rightarrow> (Response 500 (Error err), bs)
         | Inr [] \<Rightarrow> (Response 500 (Error undefined_title), bs)
         | Inr (r # rs) \<Rightarrow> (Response 201 (Row r), bs)))"
proof -
  have iff: "status (fst (post_books useMockData pool_query body bs)) = 400
      \<longleftrightarrow> \<not> truthy (title body) \<or> \<not> truthy (author body)"
    using post_books_rejects [of body useMockData pool_query bs]
      post_books_accepts_status [of body useMockData pool_query bs]
    by auto
  have rej: "\<not> truthy (title body) \<or> \<not> truthy (author body) \<longrightarrow>
      post_books useMockData pool_query body bs
        = (Response 400 (Error ''Title and author are required''), bs)"
    using post_books_rejects [of body useMockData pool_query bs] by blast
  have str: "string_or_missing (title body) \<and> string_or_missing (author body) \<longrightarrow>
      (status (fst (post_books useMockData pool_query body bs)) = 400
        \<longleftrightarrow> missing_or_empty (title body) \<or> missing_or_empty (author body))"
    using iff falsy_string [of "title body"] falsy_string [of "author body"] by blast
  have acc: "truthy (title body) \<and> truthy (author body) \<longrightarrow>
      (\<exists>newBook.
         post_books True pool_query body bs = (Response 201 (Book newBook), bs @ [newBook]) \<and>
         title newBook = title body \<and> author newBook = author body) \<and>
      post_books False pool_query body bs =
        (case pool_query (InsertBook (title body) (author body) (category body)
                            (photo body) (pdf body)) of
           Inl err \<Rightarrow> (Response 500 (Error err), bs)
         | Inr [] \<Rightarrow> (Response 500 (Error undefined_title), bs)
         | Inr (r # rs) \<Rightarrow> (Response 201 (Row r), bs))"
    by (simp add: post_books_fallback post_books_relational)
  from iff rej str acc show ?thesis by (intro conjI)
qed

theorem post_books_validation_witness:
  "\<not> truthy (title empty_title) \<and>
   string_or_missing (title empty_title) \<and> string_or_missing (author empty_title) \<and>
   missing_or_empty (title empty_title) \<and>
   post_books True failing_pool empty_title mockBooks
     = (Response 400 (Error ''Title and author are required''), mockBooks) \<and>
   post_books False failing_pool empty_title mockBooks
     = (Response 400 (Error ''Title and author are required''), mockBooks) \<and>
   truthy (title dune) \<and> truthy (author dune) \<and>
   status (fst (post_books True failing_pool dune mockBooks)) = 201 \<and>
   status (fst (post_books False failing_pool dune mockBooks)) \<noteq> 400"
proof -
  have e: "\<not> truthy (title empty_title)" "string_or_missing (title empty_title)"
    "string_or_missing (author empty_title)" "missing_or_empty (title empty_title)"
    by (simp_all add: empty_title_def string_or_missing_def missing_or_empty_def)
  have d: "truthy (title dune)" "truthy (author dune)"
    by (simp_all add: dune_def)
  from e(1) post_books_validation [of True failing_pool empty_title mockBooks]
  have 1: "post_books True failing_pool empty_title mockBooks
     = (Response 400 (Error ''Title and author are required''), mockBooks)" by blast
  from e(1) post_books_validation [of False failing_pool empty_title mockBooks]
  have 2: "post_books False failing_pool empty_title mockBooks
     = (Response 400 (Error ''Title and author are required''), mockBooks)" by blast
  from d post_books_validation [of True failing_pool dune mockBooks]
  have 3: "status (fst (post_books True failing_pool dune mockBooks)) = 201" by auto
  from d post_books_validation [of False failing_pool dune mockBooks]
  have 4: "status (fst (post_books False failing_pool dune mockBooks)) \<noteq> 400" by blast
  from e d 1 2 3 4 show ?thesis by (intro conjI)
qed

subsection \<open>PUT: replace, not merge\<close>

lemma parseInt_1: "parseInt ''1'' = Some 1"
  by code_simp

lemma parseInt_2: "parseInt ''2'' = Some 2"
  by code_simp

lemma parseInt_999: "parseInt ''999'' = Some 999"
  by code_simp

lemma parseInt_abc: "parseInt ''abc'' = None"
  by code_simp

lemma mockBooks_has_1: "\<exists>b\<in>set mockBooks. id_eq (parseInt ''1'') b"
  by (simp add: parseInt_1 id_eq_def mockBooks_def)

lemma mockBooks_lacks_999: "\<not> (\<exists>b\<in>set mockBooks. id_eq (parseInt ''999'') b)"
  by (simp add: parseInt_999 id_eq_def mockBooks_def)

lemma put_book_1_dune2:
  "put_book True failing_pool ''1'' dune2 mockBooks =
     (Response 200 (Book \<lparr>title = Some (JStr ''Dune 2''), author = Some (JStr ''Herbert''),
        category = None, photo = None, pdf = None, book_id = 1\<rparr>),
      \<lparr>title = Some (JStr ''Dune 2''), author = Some (JStr ''Herbert''),
        category = None, photo = None, pdf = None, book_id = 1\<rparr> # tl mockBooks)"
  by (simp add: put_book_def Let_def parseInt_1 id_eq_def mockBooks_def dune2_def)

text \<open>
  Claim C4. When the array has a record with the \<open>id\<close> of the path, PUT /books/:id
  answers 200 with the record whose five fields \<open>title\<close>, \<open>author\<close>, \<open>category\<close>,
  \<open>photo\<close>, \<open>pdf\<close> are those of the request body and whose \<open>id\<close> is the old one, and
  stores it in the place of the old record. A field that the body omits is \<open>undefined\<close>
  in the body, so it is \<open>undefined\<close> in the record afterwards, whatever it was. In the
  relational mode the UPDATE carries the same five values of the body, omitted or not.
\<close>

theorem put_book_replaces:
  assumes "\<exists>b\<in>set bs. id_eq (parseInt param) b"
  shows "\<exists>i b. i < length bs \<and> id_eq (parseInt param) (bs ! i) \<and>
      put_book True pool_query param body bs = (Response 200 (Book b), bs[i := b]) \<and>
      title b = title body \<and> author b = author body \<and> category b = category body \<and>
      photo b = photo body \<and> pdf b = pdf body \<and> book_id b = book_id (bs ! i) \<and>
      put_book False pool_query param body bs =
        (case pool_query (UpdateBook (title body) (author body) (category body)
                            (photo body) (pdf body) (parseInt param)) of
           Inl err \<Rightarrow> (Response 500 (Error err), bs)
         | Inr [] \<Rightarrow> (Response 404 (Message ''Book not found''), bs)
         | Inr (r # rs) \<Rightarrow> (Response 200 (Row r), bs))"
proof -
  from assms obtain i where i: "findIndex (id_eq (parseInt param)) bs = Some i"
    by (rule findIndex_SomeE)
  let ?b = "(bs ! i)\<lparr>title := title body, author := author body,
      category := category body, photo := photo body, pdf := pdf body\<rparr>"
  from findIndex_Some [OF i]
  have 1: "i < length bs" and 2: "id_eq (parseInt param) (bs ! i)" by simp_all
  have 3: "put_book True pool_query param body bs = (Response 200 (Book ?b), bs[i := ?b])"
    using i by (simp add: put_book_fallback_Some)
  have 4: "title ?b = title body \<and> author ?b = author body \<and> category ?b = category body \<and>
      photo ?b = photo body \<and> pdf ?b = pdf body \<and> book_id ?b = book_id (bs ! i)"
    by simp
  have 5: "put_book False pool_query param body bs =
        (case pool_query (UpdateBook (title body) (author body) (category body)
                            (photo body) (pdf body) (parseInt param)) of
           Inl err \<Rightarrow> (Response 500 (Error err), bs)
         | Inr [] \<Rightarrow> (Response 404 (Message ''Book not found''), bs)
         | Inr (r # rs) \<Rightarrow> (Response 200 (Row r), bs))"
    by (simp add: put_book_def)
  from 1 2 3 4 5 show ?thesis by blast
qed

theorem put_book_replaces_witness:
  "(\<exists>b\<in>set mockBooks. id_eq (parseInt ''1'') b) \<and>
   category (hd mockBooks) = Some (JStr ''Technology'') \<and>
   category dune2 = None \<and>
   (\<exists>i b. i < length mockBooks \<and> id_eq (parseInt ''1'') (mockBooks ! i) \<and>
      put_book True failing_pool ''1'' dune2 mockBooks
        = (Response 200 (Book b), mockBooks[i := b]) \<and>
      title b = Some (JStr ''Dune 2'') \<and> author b = Some (JStr ''Herbert'') \<and>
      category b = None \<and> photo b = None \<and> pdf b = None \<and> book_id b = 1)"
proof -
  have c: "category (hd mockBooks) = Some (JStr ''Technology'')" "category dune2 = None"
    by (simp_all add: mockBooks_def dune2_def)
  from put_book_replaces [OF mockBooks_has_1, of failing_pool dune2]
  obtain i b where ib: "i < length mockBooks" "id_eq (parseInt ''1'') (mockBooks ! i)"
    "put_book True failing_pool ''1'' dune2 mockBooks = (Response 200 (Book b), mockBooks[i := b])"
    "title b = title dune2" "author b = author dune2" "category b = category dune2"
    "photo b = photo dune2" "pdf b = pdf dune2" "book_id b = book_id (mockBooks ! i)"
    by blast
  from ib(3) have "b = \<lparr>title = Some (JStr ''Dune 2''), author = Some (JStr ''Herbert''),
        category = None, photo = None, pdf = None, book_id = 1\<rparr>"
    by (simp add: put_book_1_dune2)
  then have "title b = Some (JStr ''Dune 2'') \<and> author b = Some (JStr ''Herbert'') \<and>
      category b = None \<and> photo b = None \<and> pdf b = None \<and> book_id b = 1"
    by simp
  with ib(1,2,3) mockBooks_has_1 c show ?thesis by blast
qed

text \<open>
  Claim C6. When no record of the array has the \<open>id\<close> of the path (in particular when
  the path does not parse, \<open>NaN\<close> being equal to no \<open>id\<close>), PUT /books/:id answers 404
  and the array is exactly what it was. In the relational mode the record is not in
  the store when the UPDATE returns no row: the answer is 404 then, and only then; the
  handler sends this one statement and never touches the array.
\<close>

theorem put_book_not_found:
  assumes "\<not> (\<exists>b\<in>set bs. id_eq (parseInt param) b)"
  shows "put_book True pool_query param body bs
           = (Response 404 (Message ''Book not found''), bs) \<and>
         snd (put_book False pool_query param body bs) = bs \<and>
         (pool_query (UpdateBook (title body) (author body) (category body)
                        (photo body) (pdf body) (parseInt param)) = Inr [] \<longrightarrow>
            put_book False pool_query param body bs
              = (Response 404 (Message ''Book not found''), bs)) \<and>
         (fst (put_book False pool_query param body bs)
              = Response 404 (Message ''Book not found'') \<longrightarrow>
            pool_query (UpdateBook (title body) (author body) (category body)
                          (photo body) (pdf body) (parseInt param)) = Inr [])"
proof -
  from assms have "findIndex (id_eq (parseInt param)) bs = None"
    by (simp add: findIndex_None)
  then have 1: "put_book True pool_query param body bs
           = (Response 404 (Message ''Book not found''), bs)"
    by (rule put_book_fallback_None)
  have 2: "snd (put_book False pool_query param body bs) = bs"
    by (rule put_book_relational_store)
  have 3: "pool_query (UpdateBook (title body) (author body) (category body)
                        (photo body) (pdf body) (parseInt param)) = Inr [] \<longrightarrow>
            put_book False pool_query param body bs
              = (Response 404 (Message ''Book not found''), bs)"
    by (simp add: put_book_def)
  have 4: "fst (put_book False pool_query param body bs)
              = Response 404 (Message ''Book not found'') \<longrightarrow>
            pool_query (UpdateBook (title body) (author body) (category body)
                          (photo body) (pdf body) (parseInt param)) = Inr []"
    by (simp add: put_book_def Let_def split: sum.splits list.splits)
  from 1 2 3 4 show ?thesis by (intro conjI)
qed

theorem put_book_not_found_witness:
  "\<not> (\<exists>b\<in>set mockBooks. id_eq (parseInt ''999'') b) \<and>
   put_book True failing_pool ''999'' dune2 mockBooks
     = (Response 404 (Message ''Book not found''), mockBooks) \<and>
   empty_pool (UpdateBook (title dune2) (author dune2) (category dune2)
                 (photo dune2) (pdf dune2) (parseInt ''999'')) = Inr [] \<and>
   put_book False empty_pool ''999'' dune2 mockBooks
     = (Response 404 (Message ''Book not found''), mockBooks)"
proof -
  have e: "empty_pool (UpdateBook (title dune2) (author dune2) (category dune2)
                 (photo dune2) (pdf dune2) (parseInt ''999'')) = Inr []"
    by (simp add: empty_pool_def)
  from put_book_not_found [OF mockBooks_lacks_999, of failing_pool dune2]
  have 1: "put_book True failing_pool ''999'' dune2 mockBooks
     = (Response 404 (Message ''Book not found''), mockBooks)" by blast
  from put_book_not_found [OF mockBooks_lacks_999, of empty_pool dune2] e
  have 2: "put_book False empty_pool ''999'' dune2 mockBooks
     = (Response 404 (Message ''Book not found''), mockBooks)" by blast
  from mockBooks_lacks_999 1 e 2 show ?thesis by (intro conjI)
qed

text \<open>
  Claim C10. In the in-memory mode, a PUT on an \<open>id\<close> of the array writes one element
  of the array, the first one with that \<open>id\<close>: the length is the same, every other
  element is the same, the identifiers are the same in the same order, and the new
  element has the \<open>id\<close> of the path.
\<close>

theorem put_book_frame:
  assumes "\<exists>b\<in>set bs. id_eq (parseInt param) b"
  shows "\<exists>i b. i < length bs \<and> id_eq (parseInt param) (bs ! i) \<and>
      (\<forall>j<i. \<not> id_eq (parseInt param) (bs ! j)) \<and>
      put_book True pool_query param body bs = (Response 200 (Book b), bs[i := b]) \<and>
      length (bs[i := b]) = length bs \<and>
      (\<forall>j<length bs. j \<noteq> i \<longrightarrow> bs[i := b] ! j = bs ! j) \<and>
      (\<forall>j<length bs. \<not> id_eq (parseInt param) (bs ! j) \<longrightarrow> bs[i := b] ! j = bs ! j) \<and>
      map book_id (bs[i := b]) = map book_id bs \<and>
      bs[i := b] ! i = b \<and> book_id b = book_id (bs ! i) \<and> Some (book_id b) = parseInt param"
proof -
  from assms obtain i where i: "findIndex (id_eq (parseInt param)) bs = Some i"
    by (rule findIndex_SomeE)
  let ?b = "(bs ! i)\<lparr>title := title body, author := author body,
      category := category body, photo := photo body, pdf := pdf body\<rparr>"
  from findIndex_Some [OF i]
  have 1: "i < length bs" and 2: "id_eq (parseInt param) (bs ! i)"
    and 3: "\<forall>j<i. \<not> id_eq (parseInt param) (bs ! j)" by simp_all
  have 4: "put_book True pool_query param body bs = (Response 200 (Book ?b), bs[i := ?b])"
    using i by (simp add: put_book_fallback_Some)
  have 5: "length (bs[i := ?b]) = length bs" by simp
  have 6: "\<forall>j<length bs. j \<noteq> i \<longrightarrow> bs[i := ?b] ! j = bs ! j" by simp
  have 7: "\<forall>j<length bs. \<not> id_eq (parseInt param) (bs ! j) \<longrightarrow> bs[i := ?b] ! j = bs ! j"
    using 2 6 by blast
  have 8: "map book_id (bs[i := ?b]) = map book_id bs"
    using 1 by (rule map_book_id_update)
  have 9: "bs[i := ?b] ! i = ?b" using 1 by simp
  have 10: "book_id ?b = book_id (bs ! i)" by simp
  have 11: "Some (book_id ?b) = parseInt param" using 2 by (simp add: id_eq_def)
  from 1 2 3 4 5 6 7 8 9 10 11 show ?thesis by blast
qed

theorem put_book_frame_witness:
  "(\<exists>b\<in>set mockBooks. id_eq (parseInt ''1'') b) \<and>
   (\<exists>i b. i < length mockBooks \<and>
      put_book True failing_pool ''1'' dune2 mockBooks
        = (Response 200 (Book b), mockBooks[i := b]) \<and>
      length (mockBooks[i := b]) = length mockBooks \<and>
      (\<forall>j<length mockBooks. j \<noteq> i \<longrightarrow> mockBooks[i := b] ! j = mockBooks ! j) \<and>
      map book_id (mockBooks[i := b]) = map book_id mockBooks \<and>
      Some (book_id b) = parseInt ''1'')"
  using put_book_frame [OF mockBooks_has_1, of failing_pool dune2] mockBooks_has_1
  by blast

subsection \<open>DELETE\<close>

lemma delete_book_ok_message:
  "status (fst (delete_book useMockData pool_query param bs)) = 200 \<Longrightarrow>
   fst (delete_book useMockData pool_query param bs)
     = Response 200 (Message ''Book deleted successfully'')"
  by (simp add: delete_book_def Let_def split: if_splits option.splits sum.splits list.splits)

lemma ascending_distinct: "ascending bs \<Longrightarrow> distinct (map book_id bs)"
  by (simp add: ascending_def strict_sorted_iff)

lemma splice1_removes_id:
  assumes "distinct (map book_id bs)" and "i < length bs"
  shows "\<forall>b\<in>set (splice1 i bs). book_id b \<noteq> book_id (bs ! i)"
proof -
  from assms(2) have "bs = take i bs @ bs ! i # drop (Suc i) bs"
    by (rule id_take_nth_drop)
  then have "map book_id bs
      = map book_id (take i bs) @ book_id (bs ! i) # map book_id (drop (Suc i) bs)"
    by (metis list.simps(9) map_append)
  with assms(1) have "book_id (bs ! i) \<notin> set (map book_id (take i bs)) \<and>
      book_id (bs ! i) \<notin> set (map book_id (drop (Suc i) bs))"
    by (metis distinct.simps(2) distinct_append disjoint_iff list.set_intros(1))
  then have notin: "book_id (bs ! i) \<notin> book_id ` set (take i bs)"
    "book_id (bs ! i) \<notin> book_id ` set (drop (Suc i) bs)"
    by simp_all
  show ?thesis
  proof (intro ballI notI)
    fix b
    assume b: "b \<in> set (splice1 i bs)" and eq: "book_id b = book_id (bs ! i)"
    from b have "b \<in> set (take i bs) \<or> b \<in> set (drop (Suc i) bs)"
      by (simp add: splice1_def)
    then have "book_id b \<in> book_id ` set (take i bs) \<or>
        book_id b \<in> book_id ` set (drop (Suc i) bs)"
      by blast
    with eq notin show False by simp
  qed
qed

text \<open>
  Claim C5, as stated, fails in its last part: the answer to a DELETE that succeeds does
  not carry the identity of the removed record. Deleting record 1 and deleting record 2
  from the seeded array give the same response, a fixed message.
\<close>

theorem delete_book_counterexample:
  "delete_book True failing_pool ''1'' mockBooks
     = (Response 200 (Message ''Book deleted successfully''), tl mockBooks) \<and>
   delete_book True failing_pool ''2'' mockBooks
     = (Response 200 (Message ''Book deleted successfully''), hd mockBooks # drop 2 mockBooks) \<and>
   book_id (mockBooks ! 0) = 1 \<and> book_id (mockBooks ! 1) = 2 \<and>
   fst (delete_book False dune_pool ''5'' mockBooks)
     = Response 200 (Message ''Book deleted successfully'')"
  by code_simp

text \<open>
  Claim C5, amended. In the in-memory mode DELETE /books/:id answers 404, leaving the
  array as it was, when no record has the \<open>id\<close> of the path; otherwise it removes the
  first record with that \<open>id\<close> (the array is one shorter, and when the identifiers are
  ascending no record with that \<open>id\<close> is left) and answers 200. In the relational mode
  it sends one DELETE: the answer is 404 when the statement returns no row, 200 when
  it returns the removed row, and 500 when it fails. In both modes the answer of a
  DELETE that succeeds is the fixed message \<open>Book deleted successfully\<close>, with nothing
  of the removed record in it.
\<close>

theorem delete_book_result:
  "(\<not> (\<exists>b\<in>set bs. id_eq (parseInt param) b) \<longrightarrow>
      delete_book True pool_query param bs = (Response 404 (Message ''Book not found''), bs)) \<and>
   ((\<exists>b\<in>set bs. id_eq (parseInt param) b) \<longrightarrow>
      (\<exists>i<length bs. id_eq (parseInt param) (bs ! i) \<and>
         (\<forall>j<i. \<not> id_eq (parseInt param) (bs ! j)) \<and>
         delete_book True pool_query param bs
           = (Response 200 (Message ''Book deleted successfully''),
              take i bs @ drop (Suc i) bs) \<and>
         Suc (length (take i bs @ drop (Suc i) bs)) = length bs \<and>
         (ascending bs \<longrightarrow>
            \<not> (\<exists>b\<in>set (take i bs @ drop (Suc i) bs). id_eq (parseInt param) b)))) \<and>
   (status (fst (delete_book useMockData pool_query param bs)) = 200 \<longrightarrow>
      fst (delete_book useMockData pool_query param bs)
        = Response 200 (Message ''Book deleted successfully'')) \<and>
   delete_book False pool_query param bs =
     (case pool_query (DeleteById (parseInt param)) of
        Inl err \<Rightarrow> (Response 500 (Error err), bs)
      | Inr [] \<Rightarrow> (Response 404 (Message ''Book not found''), bs)
      | Inr (r # rs) \<Rightarrow> (Response 200 (Message ''Book deleted successfully''), bs)) \<and>
   (pool_query (DeleteById (parseInt param)) = Inr [] \<longrightarrow>
      delete_book False pool_query param bs
        = (Response 404 (Message ''Book not found''), bs)) \<and>
   (fst (delete_book False pool_query param bs) = Response 404 (Message ''Book not found'')
      \<longrightarrow> pool_query (DeleteById (parseInt param)) = Inr [])"
proof -
  have rel: "delete_book False pool_query param bs =
     (case pool_query (DeleteById (parseInt param)) of
        Inl err \<Rightarrow> (Response 500 (Error err), bs)
      | Inr [] \<Rightarrow> (Response 404 (Message ''Book not found''), bs)
      | Inr (r # rs) \<Rightarrow> (Response 200 (Message ''Book deleted successfully''), bs))"
    by (simp add: delete_book_def)
  have rel404: "pool_query (DeleteById (parseInt param)) = Inr [] \<longrightarrow>
      delete_book False pool_query param bs
        = (Response 404 (Message ''Book not found''), bs)"
    by (simp add: rel)
  have rel404_only: "fst (delete_book False pool_query param bs)
        = Response 404 (Message ''Book not found'')
      \<longrightarrow> pool_query (DeleteById (parseInt param)) = Inr []"
    by (simp add: rel split: sum.splits list.splits)
  have absent: "\<not> (\<exists>b\<in>set bs. id_eq (parseInt param) b) \<longrightarrow>
      delete_book True pool_query param bs = (Response 404 (Message ''Book not found''), bs)"
    by (simp add: findIndex_None delete_book_fallback_None)
  have present: "\<exists>i<length bs. id_eq (parseInt param) (bs ! i) \<and>
         (\<forall>j<i. \<not> id_eq (parseInt param) (bs ! j)) \<and>
         delete_book True pool_query param bs
           = (Response 200 (Message ''Book deleted successfully''),
              take i bs @ drop (Suc i) bs) \<and>
         Suc (length (take i bs @ drop (Suc i) bs)) = length bs \<and>
         (ascending bs \<longrightarrow>
            \<not> (\<exists>b\<in>set (take i bs @ drop (Suc i) bs). id_eq (parseInt param) b))"
    if "\<exists>b\<in>set bs. id_eq (parseInt param) b"
  proof -
    from that obtain i where i: "findIndex (id_eq (parseInt param)) bs = Some i"
      by (rule findIndex_SomeE)
    from findIndex_Some [OF i]
    have 1: "i < length bs" and 2: "id_eq (parseInt param) (bs ! i)"
      and 3: "\<forall>j<i. \<not> id_eq (parseInt param) (bs ! j)" by simp_all
    have 4: "delete_book True pool_query param bs
           = (Response 200 (Message ''Book deleted successfully''),
              take i bs @ drop (Suc i) bs)"
      using i by (simp add: delete_book_fallback_Some splice1_def)
    have 5: "Suc (length (take i bs @ drop (Suc i) bs)) = length bs"
      using 1 by simp
    have 6: "\<not> (\<exists>b\<in>set (take i bs @ drop (Suc i) bs). id_eq (parseInt param) b)"
      if "ascending bs"
    proof -
      from that have "distinct (map book_id bs)" by (rule ascending_distinct)
      from splice1_removes_id [OF this 1]
      have "\<forall>b\<in>set (take i bs @ drop (Suc i) bs). book_id b \<noteq> book_id (bs ! i)"
        by (simp add: splice1_def)
      have "\<not> id_eq (parseInt param) b" if "b \<in> set (take i bs @ drop (Suc i) bs)" for b
      proof
        assume "id_eq (parseInt param) b"
        with 2 have "Some (book_id b) = Some (book_id (bs ! i))"
          by (simp only: id_eq_def)
        then have "book_id b = book_id (bs ! i)" by simp
        with \<open>\<forall>b\<in>set (take i bs @ drop (Suc i) bs). book_id b \<noteq> book_id (bs ! i)\<close> that
        show False by blast
      qed
      then show ?thesis by blast
    qed
    from 1 2 3 4 5 6 show ?thesis by blast
  qed
  have msg: "status (fst (delete_book useMockData pool_query param bs)) = 200 \<longrightarrow>
      fst (delete_book useMockData pool_query param bs)
        = Response 200 (Message ''Book deleted successfully'')"
    using delete_book_ok_message by blast
  from absent present msg rel rel404 rel404_only show ?thesis by blast
qed


theorem delete_book_result_witness:
  "\<not> (\<exists>b\<in>set mockBooks. id_eq (parseInt ''999'') b) \<and>
   delete_book True failing_pool ''999'' mockBooks
     = (Response 404 (Message ''Book not found''), mockBooks) \<and>
   (\<exists>b\<in>set mockBooks. id_eq (parseInt ''1'') b) \<and>
   ascending mockBooks \<and>
   (\<exists>i<length mockBooks.
      delete_book True failing_pool ''1'' mockBooks
        = (Response 200 (Message ''Book deleted successfully''),
           take i mockBooks @ drop (Suc i) mockBooks) \<and>
      Suc (length (take i mockBooks @ drop (Suc i) mockBooks)) = length mockBooks \<and>
      \<not> (\<exists>b\<in>set (take i mockBooks @ drop (Suc i) mockBooks). id_eq (parseInt ''1'') b)) \<and>
   empty_pool (DeleteById (parseInt ''999'')) = Inr [] \<and>
   delete_book False empty_pool ''999'' mockBooks
     = (Response 404 (Message ''Book not found''), mockBooks) \<and>
   status (fst (delete_book False dune_pool ''5'' mockBooks)) = 200 \<and>
   fst (delete_book False dune_pool ''5'' mockBooks)
     = Response 200 (Message ''Book deleted successfully'')"
proof -
  have e: "empty_pool (DeleteById (parseInt ''999'')) = Inr []"
    by (simp add: empty_pool_def)
  have d: "status (fst (delete_book False dune_pool ''5'' mockBooks)) = 200"
    by (simp add: delete_book_def dune_pool_def)
  from delete_book_result [of mockBooks "''999''" failing_pool True] mockBooks_lacks_999
  have 1: "delete_book True failing_pool ''999'' mockBooks
     = (Response 404 (Message ''Book not found''), mockBooks)" by blast
  from delete_book_result [of mockBooks "''1''" failing_pool True]
    mockBooks_has_1 ascending_mockBooks
  have 2: "\<exists>i<length mockBooks.
      delete_book True failing_pool ''1'' mockBooks
        = (Response 200 (Message ''Book deleted successfully''),
           take i mockBooks @ drop (Suc i) mockBooks) \<and>
      Suc (length (take i mockBooks @ drop (Suc i) mockBooks)) = length mockBooks \<and>
      \<not> (\<exists>b\<in>set (take i mockBooks @ drop (Suc i) mockBooks). id_eq (parseInt ''1'') b)"
    by blast
  from delete_book_result [of mockBooks "''999''" empty_pool False] e
  have 3: "delete_book False empty_pool ''999'' mockBooks
     = (Response 404 (Message ''Book not found''), mockBooks)" by blast
  from delete_book_result [of mockBooks "''5''" dune_pool False] d
  have 4: "fst (delete_book False dune_pool ''5'' mockBooks)
     = Response 200 (Message ''Book deleted successfully'')" by blast
  from mockBooks_lacks_999 1 mockBooks_has_1 ascending_mockBooks 2 e 3 d 4
  show ?thesis by (intro conjI)
qed

subsection \<open>Titles and authors of the stored records\<close>

lemma titled_post: "titled bs \<Longrightarrow> titled (snd (post_books useMockData pool_query body bs))"
  by (cases useMockData) (auto simp: titled_def post_books_fallback post_books_relational_store)

lemma titled_delete: "titled bs \<Longrightarrow> titled (snd (delete_book useMockData pool_query param bs))"
proof (cases useMockData)
  case False
  assume "titled bs"
  with False show ?thesis by (simp add: delete_book_relational_store)
next
  case True
  assume t: "titled bs"
  show ?thesis
  proof (cases "findIndex (id_eq (parseInt param)) bs")
    case None
    with t True show ?thesis by (simp add: delete_book_fallback_None)
  next
    case (Some i)
    with t True show ?thesis
      using set_splice1 [of i bs] by (auto simp: delete_book_fallback_Some titled_def)
  qed
qed

lemma titled_put:
  assumes "titled bs" and "truthy (title body)" and "truthy (author body)"
  shows "titled (snd (put_book useMockData pool_query param body bs))"
proof (cases useMockData)
  case False
  with assms(1) show ?thesis by (simp add: put_book_relational_store)
next
  case True
  show ?thesis
  proof (cases "findIndex (id_eq (parseInt param)) bs")
    case None
    with assms(1) True show ?thesis by (simp add: put_book_fallback_None)
  next
    case (Some i)
    let ?b = "(bs ! i)\<lparr>title := title body, author := author body,
        category := category body, photo := photo body, pdf := pdf body\<rparr>"
    have "set (bs[i := ?b]) \<subseteq> insert ?b (set bs)" by (rule set_update_subset_insert)
    moreover have "truthy (title ?b) \<and> truthy (author ?b)" using assms(2,3) by simp
    ultimately have "titled (bs[i := ?b])"
      using assms(1) unfolding titled_def by blast
    with Some True show ?thesis by (simp add: put_book_fallback_Some)
  qed
qed

text \<open>
  Claim C7, as stated, fails: PUT does not look at the body before it writes. A PUT on
  record 1 of the seeded array with an empty body is a step of the store, and the record
  it leaves has neither title nor author.
\<close>

theorem titled_counterexample:
  "reachable (snd (put_book True failing_pool ''1'' no_fields mockBooks)) \<and>
   title (hd (snd (put_book True failing_pool ''1'' no_fields mockBooks))) = None \<and>
   author (hd (snd (put_book True failing_pool ''1'' no_fields mockBooks))) = None \<and>
   \<not> titled (snd (put_book True failing_pool ''1'' no_fields mockBooks))"
proof -
  have r: "reachable (snd (put_book True failing_pool ''1'' no_fields mockBooks))"
    by (intro reachable.intros)
  have s: "snd (put_book True failing_pool ''1'' no_fields mockBooks)
      = \<lparr>title = None, author = None, category = None, photo = None, pdf = None,
          book_id = 1\<rparr> # tl mockBooks"
    by (simp add: put_book_def Let_def parseInt_1 id_eq_def mockBooks_def no_fields_def)
  from r show ?thesis unfolding s by (simp add: titled_def)
qed

text \<open>
  Claim C7, amended. Every seeded record has a truthy title and author. POST and DELETE
  keep this true of every record, in both modes and for every request; PUT keeps it
  when the title and the author of its body are truthy, and is not validated.
\<close>

theorem titled_preserved:
  "titled mockBooks \<and>
   (titled bs \<longrightarrow> titled (snd (post_books useMockData pool_query body bs))) \<and>
   (titled bs \<longrightarrow> titled (snd (delete_book useMockData pool_query param bs))) \<and>
   (titled bs \<and> truthy (title body) \<and> truthy (author body) \<longrightarrow>
      titled (snd (put_book useMockData pool_query param body bs)))"
proof -
  have "titled mockBooks" by (simp add: titled_def mockBooks_def)
  then show ?thesis
    using titled_post [of bs useMockData pool_query body]
      titled_delete [of bs useMockData pool_query param]
      titled_put [of bs body useMockData pool_query param]
    by blast
qed

theorem titled_preserved_witness:
  "titled mockBooks \<and> truthy (title dune2) \<and> truthy (author dune2) \<and>
   titled (snd (post_books True failing_pool dune2 mockBooks)) \<and>
   titled (snd (delete_book True failing_pool ''1'' mockBooks)) \<and>
   titled (snd (put_book True failing_pool ''1'' dune2 mockBooks))"
proof -
  have d: "truthy (title dune2)" "truthy (author dune2)" by (simp_all add: dune2_def)
  with titled_preserved [of mockBooks True failing_pool dune2 "''1''"]
  show ?thesis by blast
qed

subsection \<open>GET of one record\<close>

text \<open>
  What GET /books/:id answers. In the in-memory mode it is 404 whenever the path does
  not parse or no record has the parsed \<open>id\<close>, and never 500. In the relational mode
  the parsed value, \<open>NaN\<close> included, is the parameter of one SELECT: the answer is 404
  exactly when the statement returns no row, and 500 exactly when it fails.
\<close>

lemma get_book_answers:
  "(parseInt param = None \<or> \<not> (\<exists>b\<in>set bs. Some (book_id b) = parseInt param) \<longrightarrow>
      get_book True pool_query param bs = Response 404 (Message ''Book not found'')) \<and>
   status (get_book True pool_query param bs) \<noteq> 500 \<and>
   (get_book False pool_query param bs = Response 404 (Message ''Book not found'')
      \<longleftrightarrow> pool_query (SelectById (parseInt param)) = Inr []) \<and>
   (status (get_book False pool_query param bs) = 500
      \<longleftrightarrow> (\<exists>err. pool_query (SelectById (parseInt param)) = Inl err))"
proof -
  have 1: "get_book True pool_query param bs = Response 404 (Message ''Book not found'')"
    if "parseInt param = None \<or> \<not> (\<exists>b\<in>set bs. Some (book_id b) = parseInt param)"
  proof -
    from that have "\<not> (\<exists>b\<in>set bs. id_eq (parseInt param) b)"
      by (auto simp: id_eq_def)
    then have "find (id_eq (parseInt param)) bs = None"
      by (simp add: find_None_iff)
    then show ?thesis by (simp add: get_book_def)
  qed
  have 2: "status (get_book True pool_query param bs) \<noteq> 500"
    by (simp add: get_book_def Let_def split: option.splits)
  have 3: "get_book False pool_query param bs = Response 404 (Message ''Book not found'')
      \<longleftrightarrow> pool_query (SelectById (parseInt param)) = Inr []"
    by (simp add: get_book_def Let_def split: sum.splits list.splits)
  have 4: "status (get_book False pool_query param bs) = 500
      \<longleftrightarrow> (\<exists>err. pool_query (SelectById (parseInt param)) = Inl err)"
    by (simp add: get_book_def Let_def split: sum.splits list.splits)
  from 1 2 3 4 show ?thesis by blast
qed

text \<open>
  Claim C9: GET /books/:id reports 404, not a server error, when the path does not parse
  or no record has the parsed \<open>id\<close>, in both modes. The relational branch misses the
  first case. For the path \<open>abc\<close>, \<open>parseInt\<close> gives \<open>NaN\<close>; the in-memory branch
  answers 404, as the claim says, and the relational branch sends \<open>NaN\<close> to the store
  unchecked: a store with an integer \<open>id\<close> column refuses the statement and the answer
  is 500. The same store answers 404 for the path \<open>999\<close>, which parses.
\<close>

theorem get_book_parse_failure:
  "parseInt ''abc'' = None \<and>
   get_book True integer_pool ''abc'' mockBooks = Response 404 (Message ''Book not found'') \<and>
   get_book False integer_pool ''abc'' mockBooks
     = Response 500 (Error ''invalid input syntax for type integer: NaN'') \<and>
   parseInt ''999'' = Some 999 \<and>
   get_book False integer_pool ''999'' mockBooks = Response 404 (Message ''Book not found'')"
  by (simp add: parseInt_abc parseInt_999 get_book_def integer_pool_def id_eq_def mockBooks_def)

subsection \<open>The numeral of an identifier parses back\<close>


















subsection \<open>POST, then GET\<close>

lemma toString_5: "toString 5 = ''5''"
  by code_simp







subsection \<open>The scenarios of the specification\<close>

lemma post_dune_scenario:
  "post_books True failing_pool dune mockBooks =
     (Response 201 (Book \<lparr>title = Some (JStr ''Dune''), author = Some (JStr ''Herbert''),
        category = Some (JStr []), photo = Some (JStr []), pdf = Some (JStr []),
        book_id = 5\<rparr>),
      mockBooks @ [\<lparr>title = Some (JStr ''Dune''), author = Some (JStr ''Herbert''),
        category = Some (JStr []), photo = Some (JStr []), pdf = Some (JStr []),
        book_id = 5\<rparr>])"
  by (simp add: post_books_fallback dune_def or_empty_def next_id_def mockBooks_def)

lemma delete_5_then_post_scenario:
  "map book_id (snd (post_books True failing_pool dune
      (snd (delete_book True failing_pool ''5'' with_dune)))) = [1, 2, 3, 4, 5]"
  by code_simp

lemma delete_2_then_post_scenario:
  "map book_id (snd (post_books True failing_pool dune without_2)) = [1, 3, 4, 5, 6]"
  by code_simp

lemma delete_999_scenario:
  "delete_book True failing_pool ''999'' mockBooks
     = (Response 404 (Message ''Book not found''), mockBooks)"
  by code_simp

end
